theory Spec2Isabelle
  imports Complex_Main
begin

section \<open>JavaScript numbers\<close>

text \<open>
  The script computes with JavaScript numbers: the binary64 numbers of IEEE 754, two
  infinities and \<open>NaN\<close>. A finite number is a real \<open>m * 2\<^sup>e\<close> with an integer
  \<open>m\<close> of magnitude below \<open>2\<^sup>5\<^sup>3\<close> and \<open>-1074 \<le> e \<le> 971\<close>. Zero carries no sign: the
  two zeros of IEEE 754 are one value here. The script tells them apart nowhere: its one
  comparison with zero is \<open>===\<close>, which holds for both, and its one quotient whose
  divisor can be zero is passed to \<open>Math.abs\<close>.
\<close>

definition is_double :: "real \<Rightarrow> bool" where
  "is_double v \<longleftrightarrow>
     (\<exists>(m::int) (e::int). \<bar>m\<bar> < 2 ^ 53 \<and> - 1074 \<le> e \<and> e \<le> 971 \<and>
        v = of_int m * 2 powr of_int e)"

typedef double = "{v::real. is_double v}"
proof
  have "\<bar>0::int\<bar> < 2 ^ 53 \<and> - 1074 \<le> (0::int) \<and> (0::int) \<le> 971 \<and>
      (0::real) = of_int 0 * 2 powr of_int 0"
    by simp
  then show "0 \<in> {v::real. is_double v}"
    unfolding is_double_def by blast
qed

definition val :: "double \<Rightarrow> real" where
  "val = Rep_double"

definition dbl :: "real \<Rightarrow> double" where
  "dbl = Abs_double"

datatype jsnum = Fin double | PInf | NInf | NaN

text \<open>
  Rounding to nearest, ties to even. The grid is the finite numbers together with
  \<open>\<plusminus>2\<^sup>1\<^sup>0\<^sup>2\<^sup>4\<close>, the two values that stand for overflow. A real inside the grid has
  a neighbour on each side; the nearer one is taken, and of two equally near ones the
  one that is an even multiple of their distance. A result of \<open>\<plusminus>2\<^sup>1\<^sup>0\<^sup>2\<^sup>4\<close> is an
  infinity.
\<close>

definition grid :: "real set" where
  "grid = {v. is_double v} \<union> {2 ^ 1024, - (2 ^ 1024)}"

definition grid_below :: "real \<Rightarrow> real" where
  "grid_below v = Max {g \<in> grid. g \<le> v}"

definition grid_above :: "real \<Rightarrow> real" where
  "grid_above v = Min {g \<in> grid. v \<le> g}"

definition even_point :: "real \<Rightarrow> real \<Rightarrow> bool" where
  "even_point lo hi \<longleftrightarrow> (\<exists>n::int. lo = of_int (2 * n) * (hi - lo))"

definition nearest :: "real \<Rightarrow> real" where
  "nearest v =
     (let lo = grid_below v; hi = grid_above v in
      if v - lo < hi - v then lo
      else if hi - v < v - lo then hi
      else if even_point lo hi then lo else hi)"

definition rnd :: "real \<Rightarrow> jsnum" where
  "rnd v =
     (if 2 ^ 1024 \<le> \<bar>v\<bar> \<or> \<bar>nearest v\<bar> = 2 ^ 1024
      then (if 0 < v then PInf else NInf)
      else Fin (dbl (nearest v)))"

text \<open>A numeric literal of the script denotes the number nearest to its decimal value.\<close>

definition lit :: "real \<Rightarrow> jsnum" where
  "lit v = rnd v"

text \<open>
  The arithmetic operators: on finite operands the exact result, rounded; on the
  others the special cases of IEEE 754. A quotient by zero takes the sign of the
  dividend, the zero being unsigned.
\<close>

fun jneg :: "jsnum \<Rightarrow> jsnum" where
  "jneg (Fin a) = Fin (dbl (- val a))"
| "jneg PInf = NInf"
| "jneg NInf = PInf"
| "jneg NaN = NaN"

fun jabs :: "jsnum \<Rightarrow> jsnum" where
  "jabs (Fin a) = Fin (dbl \<bar>val a\<bar>)"
| "jabs PInf = PInf"
| "jabs NInf = PInf"
| "jabs NaN = NaN"

fun jadd :: "jsnum \<Rightarrow> jsnum \<Rightarrow> jsnum" where
  "jadd (Fin a) (Fin b) = rnd (val a + val b)"
| "jadd NaN _ = NaN"
| "jadd _ NaN = NaN"
| "jadd PInf NInf = NaN"
| "jadd NInf PInf = NaN"
| "jadd PInf _ = PInf"
| "jadd _ PInf = PInf"
| "jadd NInf _ = NInf"
| "jadd _ NInf = NInf"

definition jsub :: "jsnum \<Rightarrow> jsnum \<Rightarrow> jsnum" where
  "jsub a b = jadd a (jneg b)"

fun jmul :: "jsnum \<Rightarrow> jsnum \<Rightarrow> jsnum" where
  "jmul (Fin a) (Fin b) = rnd (val a * val b)"
| "jmul NaN _ = NaN"
| "jmul _ NaN = NaN"
| "jmul PInf (Fin b) = (if val b = 0 then NaN else if 0 < val b then PInf else NInf)"
| "jmul NInf (Fin b) = (if val b = 0 then NaN else if 0 < val b then NInf else PInf)"
| "jmul (Fin a) PInf = (if val a = 0 then NaN else if 0 < val a then PInf else NInf)"
| "jmul (Fin a) NInf = (if val a = 0 then NaN else if 0 < val a then NInf else PInf)"
| "jmul PInf PInf = PInf"
| "jmul PInf NInf = NInf"
| "jmul NInf PInf = NInf"
| "jmul NInf NInf = PInf"

fun jdiv :: "jsnum \<Rightarrow> jsnum \<Rightarrow> jsnum" where
  "jdiv (Fin a) (Fin b) =
     (if val b = 0 then (if val a = 0 then NaN else if 0 < val a then PInf else NInf)
      else rnd (val a / val b))"
| "jdiv NaN _ = NaN"
| "jdiv _ NaN = NaN"
| "jdiv (Fin a) PInf = lit 0"
| "jdiv (Fin a) NInf = lit 0"
| "jdiv PInf (Fin b) = (if 0 \<le> val b then PInf else NInf)"
| "jdiv NInf (Fin b) = (if 0 \<le> val b then NInf else PInf)"
| "jdiv PInf PInf = NaN"
| "jdiv PInf NInf = NaN"
| "jdiv NInf PInf = NaN"
| "jdiv NInf NInf = NaN"

text \<open>The comparison \<open>===\<close> on numbers: \<open>NaN\<close> equals nothing, itself included.\<close>

definition strict_eq :: "jsnum \<Rightarrow> jsnum \<Rightarrow> bool" where
  "strict_eq a b = (a \<noteq> NaN \<and> b \<noteq> NaN \<and> a = b)"

text \<open>
  The comparison \<open><=\<close> on numbers: false as soon as one side is \<open>NaN\<close>. The script
  does not compare numbers this way; the order of two simulation times is stated with it.
\<close>

fun jle :: "jsnum \<Rightarrow> jsnum \<Rightarrow> bool" where
  "jle (Fin a) (Fin b) = (val a \<le> val b)"
| "jle NaN _ = False"
| "jle _ NaN = False"
| "jle NInf _ = True"
| "jle _ PInf = True"
| "jle PInf _ = False"
| "jle _ NInf = False"

text \<open>\<open>Math.PI\<close>, the number nearest to \<open>\<pi>\<close>.\<close>

definition Math_PI_value :: real where
  "Math_PI_value = 884279719003555 / 2 ^ 48"

definition Math_PI :: jsnum where
  "Math_PI = Fin (dbl Math_PI_value)"

section \<open>State of the script\<close>

text \<open>A \<open>THREE.Vector3\<close>, with the library's componentwise \<open>add\<close>.\<close>

record vector3 =
  x :: jsnum
  y :: jsnum
  z :: jsnum

definition vector3_add :: "vector3 \<Rightarrow> vector3 \<Rightarrow> vector3" where
  "vector3_add v w = \<lparr>x = jadd (x v) (x w), y = jadd (y v) (y w), z = jadd (z v) (z w)\<rparr>"

text \<open>
  What the script shares with the orbit controls: \<open>camera.position\<close>, the point the
  camera was last turned to by \<open>camera.lookAt\<close> (none before the first call), and
  \<open>controls.target\<close>.
\<close>

record view =
  camera_position :: vector3
  camera_lookAt :: "vector3 option"
  controls_target :: vector3

text \<open>
  What is not in the script and is taken as given. The functions \<open>Math.sin\<close>,
  \<open>Math.cos\<close> and \<open>Math.tan\<close> of the JavaScript engine are approximations that the
  language leaves to the implementation; each is a function from the finite numbers.
  The method \<open>controls.update\<close> of the \<open>OrbitControls\<close> library recomputes the camera
  from the target of the controls and the pointer input; it is a function on the view.
\<close>

record host =
  Math_sin :: "double \<Rightarrow> jsnum"
  Math_cos :: "double \<Rightarrow> jsnum"
  Math_tan :: "double \<Rightarrow> jsnum"
  controls_update :: "view \<Rightarrow> view"

text \<open>
  The cases the language fixes for every engine: sine and tangent of zero are zero,
  the cosine of zero is one, and outside the finite numbers the result is \<open>NaN\<close>.
\<close>

fun jsin :: "host \<Rightarrow> jsnum \<Rightarrow> jsnum" where
  "jsin H (Fin a) = (if val a = 0 then Fin a else Math_sin H a)"
| "jsin H PInf = NaN"
| "jsin H NInf = NaN"
| "jsin H NaN = NaN"

fun jcos :: "host \<Rightarrow> jsnum \<Rightarrow> jsnum" where
  "jcos H (Fin a) = (if val a = 0 then lit 1 else Math_cos H a)"
| "jcos H PInf = NaN"
| "jcos H NInf = NaN"
| "jcos H NaN = NaN"

fun jtan :: "host \<Rightarrow> jsnum \<Rightarrow> jsnum" where
  "jtan H (Fin a) = (if val a = 0 then Fin a else Math_tan H a)"
| "jtan H PInf = NaN"
| "jtan H NInf = NaN"
| "jtan H NaN = NaN"

text \<open>
  A host for concrete runs: \<open>Math\<close> functions that return the exact value rounded, and
  a \<open>controls.update\<close> that leaves the view as it is.
\<close>

definition reference_host :: host where
  "reference_host =
     \<lparr>Math_sin = (\<lambda>a. rnd (sin (val a))),
      Math_cos = (\<lambda>a. rnd (cos (val a))),
      Math_tan = (\<lambda>a. rnd (tan (val a))),
      controls_update = (\<lambda>v. v)\<rparr>"


text \<open>The object \<open>params\<close> (script.js, lines 39 to 51); its method \<open>reset\<close> is below.\<close>

record parameters =
  mass :: jsnum
  charge :: jsnum
  B :: jsnum
  v_perp :: jsnum
  v_parallel :: jsnum
  speed :: jsnum
  followCamera :: bool

text \<open>
  The mutable state: \<open>params\<close>, the simulation time \<open>t\<close>, the array \<open>trailPositions\<close>,
  \<open>particle.position\<close> and the view. What the rendering library draws
  (\<open>trail.geometry.setFromPoints\<close>, \<open>renderer.render\<close>), the scheduling of the next
  frame and the text of the value labels are not part of the state.
\<close>

record sim =
  params :: parameters
  t :: jsnum
  trailPositions :: "vector3 list"
  particle_position :: vector3
  sim_view :: view

definition maxTrailPoints :: nat where
  "maxTrailPoints = 1000"

text \<open>\<open>THREE.Math.degToRad\<close> multiplies by the library's constant \<open>Math.PI / 180\<close>.\<close>

definition degToRad :: "jsnum \<Rightarrow> jsnum" where
  "degToRad d = jmul d (jdiv Math_PI (lit 180))"

text \<open>Line 59.\<close>

definition fixedCameraOffset :: "host \<Rightarrow> vector3" where
  "fixedCameraOffset H =
     \<lparr>x = lit (- 10), y = jmul (lit 10) (jtan H (degToRad (lit 20))), z = lit 0\<rparr>"

text \<open>
  The state after the declarations, before the first frame (lines 15 to 17, 28, 39 to
  53): a new mesh is at the origin, and the view is what \<open>controls.update()\<close> makes of
  the camera position and target that the script has set.
\<close>

definition initial :: "host \<Rightarrow> sim" where
  "initial H =
     \<lparr>params = \<lparr>mass = lit 1, charge = lit 1, B = lit 1, v_perp = lit 1,
                v_parallel = lit 1, speed = lit 1, followCamera = False\<rparr>,
      t = lit 0,
      trailPositions = [],
      particle_position = \<lparr>x = lit 0, y = lit 0, z = lit 0\<rparr>,
      sim_view = controls_update H
        \<lparr>camera_position =
           \<lparr>x = lit (- 10), y = jmul (lit 10) (jtan H (degToRad (lit 20))), z = lit 10\<rparr>,
         camera_lookAt = None,
         controls_target = \<lparr>x = lit 0, y = lit 0, z = lit 0\<rparr>\<rparr>\<rparr>"

section \<open>The trajectory and the trail\<close>

text \<open>Line 63: the cyclotron frequency.\<close>

definition omega_of :: "parameters \<Rightarrow> jsnum" where
  "omega_of p = jabs (jdiv (jmul (charge p) (B p)) (mass p))"

text \<open>Lines 63 to 73: the position \<open>updateParticle\<close> gives the particle at time \<open>tm\<close>.\<close>

definition position_at :: "host \<Rightarrow> parameters \<Rightarrow> jsnum \<Rightarrow> vector3" where
  "position_at H p tm =
     (let omega = omega_of p in
      if strict_eq omega (lit 0) \<or> strict_eq (v_perp p) (lit 0)
      then \<lparr>x = jmul (v_perp p) tm, y = lit 0, z = jmul (v_parallel p) tm\<rparr>
      else
        (let r = jdiv (v_perp p) omega in
         \<lparr>x = jmul r (jsin H (jmul omega tm)),
          y = jmul (jneg r) (jsub (lit 1) (jcos H (jmul omega tm))),
          z = jmul (v_parallel p) tm\<rparr>))"

text \<open>
  Not in the script, for stating the circle the particle moves on: the distance in the
  x-y plane between a computed position \<open>(px, py)\<close> and the point \<open>(0, -r)\<close>, the
  squares, the sum and the root taken exactly.
\<close>

definition gyro_distance :: "double \<Rightarrow> double \<Rightarrow> double \<Rightarrow> real" where
  "gyro_distance px py r = sqrt ((val px)\<^sup>2 + (val py + val r)\<^sup>2)"

text \<open>Lines 74 and 75: \<open>push\<close>, then one \<open>shift\<close> when the array is longer than the bound.\<close>

definition trail_push :: "vector3 \<Rightarrow> vector3 list \<Rightarrow> vector3 list" where
  "trail_push p tr =
     (let tr1 = tr @ [p] in if length tr1 > maxTrailPoints then tl tr1 else tr1)"

definition updateParticle :: "host \<Rightarrow> sim \<Rightarrow> sim" where
  "updateParticle H s =
     (let pos = position_at H (params s) (t s) in
      s\<lparr>particle_position := pos, trailPositions := trail_push pos (trailPositions s)\<rparr>)"

section \<open>The animation loop and the controls\<close>

text \<open>
  One call of \<open>animate\<close> (lines 80 to 98); \<open>delta\<close> is what \<open>clock.getDelta()\<close>
  returned for the frame. In follow mode the script sets the camera position, turns the
  camera to the particle, sets the target of the controls and then calls
  \<open>controls.update()\<close>.
\<close>

definition animate :: "host \<Rightarrow> jsnum \<Rightarrow> sim \<Rightarrow> sim" where
  "animate H delta s =
     (let s1 = s\<lparr>t := jadd (t s) (jmul (speed (params s)) delta)\<rparr>;
          s2 = updateParticle H s1
      in if followCamera (params s2)
         then s2\<lparr>sim_view := controls_update H
                 \<lparr>camera_position =
                    vector3_add (particle_position s2) (fixedCameraOffset H),
                  camera_lookAt = Some (particle_position s2),
                  controls_target = particle_position s2\<rparr>\<rparr>
         else s2)"

text \<open>\<open>params.reset\<close> (lines 47 to 50).\<close>

definition reset :: "sim \<Rightarrow> sim" where
  "reset s = s\<lparr>t := lit 0, trailPositions := []\<rparr>"

text \<open>The six parameter names \<open>bindSlider\<close> is called with, and \<open>params[paramName] = value\<close>.\<close>

datatype paramName = P_mass | P_charge | P_B | P_v_perp | P_v_parallel | P_speed

fun set_param :: "paramName \<Rightarrow> jsnum \<Rightarrow> parameters \<Rightarrow> parameters" where
  "set_param P_mass v p = p\<lparr>mass := v\<rparr>"
| "set_param P_charge v p = p\<lparr>charge := v\<rparr>"
| "set_param P_B v p = p\<lparr>B := v\<rparr>"
| "set_param P_v_perp v p = p\<lparr>v_perp := v\<rparr>"
| "set_param P_v_parallel v p = p\<lparr>v_parallel := v\<rparr>"
| "set_param P_speed v p = p\<lparr>speed := v\<rparr>"

text \<open>
  The listener \<open>bindSlider\<close> attaches (lines 107 to 115); \<open>v\<close> is
  \<open>parseFloat(e.target.value)\<close>.
\<close>

definition bindSlider :: "paramName \<Rightarrow> bool \<Rightarrow> jsnum \<Rightarrow> sim \<Rightarrow> sim" where
  "bindSlider paramName resetOnChange v s =
     (let s1 = s\<lparr>params := set_param paramName v (params s)\<rparr>
      in if resetOnChange then s1\<lparr>t := lit 0, trailPositions := []\<rparr> else s1)"

text \<open>The six bindings (lines 119 to 124).\<close>

fun slider_input :: "paramName \<Rightarrow> jsnum \<Rightarrow> sim \<Rightarrow> sim" where
  "slider_input P_mass v s = bindSlider P_mass True v s"
| "slider_input P_charge v s = bindSlider P_charge True v s"
| "slider_input P_B v s = bindSlider P_B True v s"
| "slider_input P_v_perp v s = bindSlider P_v_perp True v s"
| "slider_input P_v_parallel v s = bindSlider P_v_parallel True v s"
| "slider_input P_speed v s = bindSlider P_speed False v s"

text \<open>The follow checkbox (lines 127 to 130).\<close>

definition follow_change :: "bool \<Rightarrow> sim \<Rightarrow> sim" where
  "follow_change checked s = s\<lparr>params := (params s)\<lparr>followCamera := checked\<rparr>\<rparr>"

text \<open>
  Everything that changes the state: a frame, an input event of a slider, a change of
  the checkbox, a click on the reset button (lines 133 to 136). A run handles events
  one after the other, as the single thread of the page does.
\<close>

datatype event =
  Frame jsnum
| SliderInput paramName jsnum
| FollowChange bool
| ResetClick

fun handle :: "host \<Rightarrow> sim \<Rightarrow> event \<Rightarrow> sim" where
  "handle H s (Frame delta) = animate H delta s"
| "handle H s (SliderInput n v) = slider_input n v s"
| "handle H s (FollowChange c) = follow_change c s"
| "handle H s ResetClick = reset s"

definition run :: "host \<Rightarrow> event list \<Rightarrow> sim \<Rightarrow> sim" where
  "run H evs s = foldl (handle H) s evs"

section \<open>Facts about rounding\<close>

lemma val_is_double: "is_double (val a)"
  using Rep_double [of a] by (simp add: val_def)

lemma val_dbl: "is_double v \<Longrightarrow> val (dbl v) = v"
  by (simp add: val_def dbl_def Abs_double_inverse)

lemma dbl_val: "dbl (val a) = a"
  by (simp add: val_def dbl_def Rep_double_inverse)

lemma val_eq_iff: "val a = val b \<longleftrightarrow> a = b"
  by (simp add: val_def Rep_double_inject)

lemma dbl_eq_iff: "is_double v \<Longrightarrow> is_double w \<Longrightarrow> dbl v = dbl w \<longleftrightarrow> v = w"
  by (simp add: dbl_def Abs_double_inject)

lemma is_double_int:
  assumes "\<bar>n\<bar> < 2 ^ 53"
  shows "is_double (of_int n)"
proof -
  have "\<bar>n\<bar> < 2 ^ 53 \<and> - 1074 \<le> (0::int) \<and> (0::int) \<le> 971 \<and>
      (of_int n :: real) = of_int n * 2 powr of_int 0"
    using assms by simp
  then show ?thesis
    unfolding is_double_def by blast
qed

lemma is_double_0: "is_double 0"
  using is_double_int [of 0] by simp

lemma is_double_1: "is_double 1"
  using is_double_int [of 1] by simp

lemma is_double_numeral: "numeral n < (2::int) ^ 53 \<Longrightarrow> is_double (numeral n)"
  using is_double_int [of "numeral n"] by simp

lemma is_double_minus: "is_double v \<Longrightarrow> is_double (- v)"
proof -
  assume "is_double v"
  then obtain m e :: int where me: "\<bar>m\<bar> < 2 ^ 53" "- 1074 \<le> e" "e \<le> 971"
    "v = of_int m * 2 powr of_int e"
    unfolding is_double_def by blast
  then have "\<bar>- m\<bar> < 2 ^ 53 \<and> - 1074 \<le> e \<and> e \<le> 971 \<and> - v = of_int (- m) * 2 powr of_int e"
    by simp
  then show "is_double (- v)"
    unfolding is_double_def by blast
qed

lemma is_double_abs: "is_double v \<Longrightarrow> is_double \<bar>v\<bar>"
  by (simp add: abs_if is_double_minus)

lemma double_less_top:
  assumes "is_double v"
  shows "\<bar>v\<bar> < 2 ^ 1024"
proof -
  from assms obtain m e :: int where me: "\<bar>m\<bar> < 2 ^ 53" "- 1074 \<le> e" "e \<le> 971"
    "v = of_int m * 2 powr of_int e"
    unfolding is_double_def by blast
  have p: "(2::real) powr of_int e \<le> 2 powr 971"
    using me(3) by (intro powr_mono) simp_all
  have q: "(2::real) powr 971 = 2 ^ 971"
    by simp
  have "\<bar>m\<bar> \<le> 2 ^ 53 - 1"
    using me(1) by simp
  then have "(of_int \<bar>m\<bar> :: real) \<le> of_int (2 ^ 53 - 1)"
    by (rule of_int_le_iff [THEN iffD2])
  then have m: "\<bar>of_int m :: real\<bar> \<le> 2 ^ 53 - 1"
    by simp
  have "\<bar>v\<bar> = \<bar>of_int m :: real\<bar> * 2 powr of_int e"
    by (simp add: me(4) abs_mult)
  also have "\<dots> \<le> (2 ^ 53 - 1) * 2 powr of_int e"
    using m by (intro mult_right_mono) simp_all
  also have "\<dots> \<le> (2 ^ 53 - 1) * 2 ^ 971"
    using p q by (intro mult_left_mono) simp_all
  also have "\<dots> < 2 ^ 53 * (2::real) ^ 971"
    by (intro mult_strict_right_mono) simp_all
  also have "\<dots> = 2 ^ 1024"
    by (simp add: power_add [symmetric])
  finally show ?thesis .
qed

lemma finite_grid: "finite grid"
proof -
  have "{v. is_double v} \<subseteq>
      (\<lambda>(m, e). of_int m * 2 powr of_int e) ` ({- (2 ^ 53) .. 2 ^ 53 :: int} \<times> {- 1074 .. 971 :: int})"
  proof
    fix v :: real
    assume "v \<in> {v. is_double v}"
    then obtain m e :: int where me: "\<bar>m\<bar> < 2 ^ 53" "- 1074 \<le> e" "e \<le> 971"
      "v = of_int m * 2 powr of_int e"
      unfolding is_double_def by blast
    then have "(m, e) \<in> {- (2 ^ 53) .. 2 ^ 53} \<times> {- 1074 .. 971}"
      by auto
    then show "v \<in> (\<lambda>(m, e). of_int m * 2 powr of_int e) `
        ({- (2 ^ 53) .. 2 ^ 53 :: int} \<times> {- 1074 .. 971 :: int})"
      using me(4) by (intro image_eqI [where x = "(m, e)"]) simp_all
  qed
  moreover have "finite ((\<lambda>(m, e). of_int m * (2::real) powr of_int e) `
      ({- (2 ^ 53) .. 2 ^ 53 :: int} \<times> {- 1074 .. 971 :: int}))"
    by (intro finite_imageI finite_cartesian_product) simp_all
  ultimately have "finite {v. is_double v}"
    by (rule finite_subset)
  then show ?thesis
    by (simp add: grid_def)
qed

lemma grid_double: "is_double v \<Longrightarrow> v \<in> grid"
  by (simp add: grid_def)

lemma grid_bound: "g \<in> grid \<Longrightarrow> \<bar>g\<bar> \<le> 2 ^ 1024"
  using double_less_top [of g] by (auto simp add: grid_def)

lemma grid_cases: "g \<in> grid \<Longrightarrow> \<bar>g\<bar> \<noteq> 2 ^ 1024 \<Longrightarrow> is_double g"
  by (auto simp add: grid_def)

lemma grid_minus: "g \<in> grid \<Longrightarrow> - g \<in> grid"
  by (auto simp add: grid_def is_double_minus)

text \<open>Inside the range of the grid, the neighbours exist.\<close>

lemma below_props:
  assumes "\<bar>v\<bar> \<le> 2 ^ 1024"
  shows "grid_below v \<in> grid" and "grid_below v \<le> v" and "\<And>g. g \<in> grid \<Longrightarrow> g \<le> v \<Longrightarrow> g \<le> grid_below v"
proof -
  have fin: "finite {g \<in> grid. g \<le> v}"
    using finite_grid by simp
  have "- (2 ^ 1024) \<in> {g \<in> grid. g \<le> v}"
    using assms by (simp add: grid_def)
  then have ne: "{g \<in> grid. g \<le> v} \<noteq> {}"
    by blast
  have "Max {g \<in> grid. g \<le> v} \<in> {g \<in> grid. g \<le> v}"
    using fin ne by (rule Max_in)
  then show "grid_below v \<in> grid" and "grid_below v \<le> v"
    by (simp_all add: grid_below_def)
  show "g \<le> grid_below v" if "g \<in> grid" "g \<le> v" for g
    unfolding grid_below_def using fin that by (intro Max_ge) simp_all
qed

lemma above_props:
  assumes "\<bar>v\<bar> \<le> 2 ^ 1024"
  shows "grid_above v \<in> grid" and "v \<le> grid_above v" and "\<And>g. g \<in> grid \<Longrightarrow> v \<le> g \<Longrightarrow> grid_above v \<le> g"
proof -
  have fin: "finite {g \<in> grid. v \<le> g}"
    using finite_grid by simp
  have "2 ^ 1024 \<in> {g \<in> grid. v \<le> g}"
    using assms by (simp add: grid_def)
  then have ne: "{g \<in> grid. v \<le> g} \<noteq> {}"
    by blast
  have "Min {g \<in> grid. v \<le> g} \<in> {g \<in> grid. v \<le> g}"
    using fin ne by (rule Min_in)
  then show "grid_above v \<in> grid" and "v \<le> grid_above v"
    by (simp_all add: grid_above_def)
  show "grid_above v \<le> g" if "g \<in> grid" "v \<le> g" for g
    unfolding grid_above_def using fin that by (intro Min_le) simp_all
qed

lemma nearest_cases: "nearest v = grid_below v \<or> nearest v = grid_above v"
  by (simp add: nearest_def Let_def)

lemma nearest_between:
  assumes "\<bar>v\<bar> \<le> 2 ^ 1024"
  shows "grid_below v \<le> nearest v" and "nearest v \<le> grid_above v" and "nearest v \<in> grid"
proof -
  have "grid_below v \<le> grid_above v"
    using below_props(2) [OF assms] above_props(2) [OF assms] by linarith
  then show "grid_below v \<le> nearest v" and "nearest v \<le> grid_above v"
    using nearest_cases [of v] by auto
  show "nearest v \<in> grid"
    using nearest_cases [of v] below_props(1) [OF assms] above_props(1) [OF assms] by auto
qed

lemma nearest_error:
  assumes "\<bar>v\<bar> \<le> 2 ^ 1024"
  shows "\<bar>nearest v - v\<bar> \<le> (grid_above v - grid_below v) / 2"
proof -
  have "grid_below v \<le> v" "v \<le> grid_above v"
    using below_props(2) [OF assms] above_props(2) [OF assms] by simp_all
  then show ?thesis
    by (auto simp add: nearest_def Let_def abs_if)
qed

lemma nearest_grid:
  assumes "g \<in> grid"
  shows "nearest g = g"
proof -
  have b: "\<bar>g\<bar> \<le> 2 ^ 1024"
    using assms by (rule grid_bound)
  have "g \<le> grid_below g" "grid_above g \<le> g"
    using below_props(3) [OF b assms] above_props(3) [OF b assms] by simp_all
  then have "grid_below g = g" "grid_above g = g"
    using below_props(2) [OF b] above_props(2) [OF b] by simp_all
  then show ?thesis
    using nearest_cases [of g] by auto
qed

lemma rnd_double:
  assumes "is_double v"
  shows "rnd v = Fin (dbl v)"
proof -
  have "\<bar>v\<bar> < 2 ^ 1024"
    using assms by (rule double_less_top)
  moreover have "nearest v = v"
    using assms by (intro nearest_grid grid_double)
  ultimately show ?thesis
    by (simp add: rnd_def)
qed

lemma nearest_sign:
  assumes "\<bar>v\<bar> \<le> 2 ^ 1024"
  shows "0 \<le> v \<Longrightarrow> 0 \<le> nearest v" and "v \<le> 0 \<Longrightarrow> nearest v \<le> 0"
proof -
  have z: "0 \<in> grid"
    by (simp add: grid_double is_double_0)
  show "0 \<le> nearest v" if "0 \<le> v"
    using below_props(3) [OF assms z that] nearest_between(1) [OF assms] by linarith
  show "nearest v \<le> 0" if "v \<le> 0"
    using above_props(3) [OF assms z that] nearest_between(2) [OF assms] by linarith
qed

text \<open>Rounding never goes grid_below a double that the exact value is not grid_below.\<close>

lemma rnd_lower:
  assumes "is_double d" and "d \<le> v"
  shows "rnd v = PInf \<or> (\<exists>e. rnd v = Fin e \<and> d \<le> val e)"
proof (cases "2 ^ 1024 \<le> \<bar>v\<bar>")
  case True
  have "- (2 ^ 1024) < d"
    using double_less_top [OF assms(1)] by (simp add: abs_if split: if_splits)
  with assms(2) True have "0 < v"
    by (simp add: abs_if split: if_splits)
  with True show ?thesis
    by (simp add: rnd_def)
next
  case False
  then have b: "\<bar>v\<bar> \<le> 2 ^ 1024"
    by simp
  have dn: "d \<le> nearest v"
    using below_props(3) [OF b grid_double [OF assms(1)] assms(2)] nearest_between(1) [OF b]
    by linarith
  show ?thesis
  proof (cases "\<bar>nearest v\<bar> = 2 ^ 1024")
    case True
    have "- (2 ^ 1024) < d"
      using double_less_top [OF assms(1)] by (simp add: abs_if split: if_splits)
    with dn True have top: "nearest v = 2 ^ 1024"
      by (simp add: abs_if split: if_splits)
    have "0 < v"
    proof (rule ccontr)
      assume "\<not> 0 < v"
      then have "nearest v \<le> 0"
        using nearest_sign(2) [OF b] by simp
      with top show False by simp
    qed
    with True show ?thesis
      by (simp add: rnd_def)
  next
    case fin: False
    have "is_double (nearest v)"
      using nearest_between(3) [OF b] fin by (rule grid_cases)
    then have "val (dbl (nearest v)) = nearest v"
      by (rule val_dbl)
    with dn False fin show ?thesis
      by (simp add: rnd_def)
  qed
qed

lemma is_double_pow2_1023: "is_double (2 ^ 1023)"
proof -
  have "\<bar>2 ^ 52 :: int\<bar> < 2 ^ 53 \<and> - 1074 \<le> (971::int) \<and> (971::int) \<le> 971 \<and>
      (2 ^ 1023 :: real) = of_int (2 ^ 52) * 2 powr of_int 971"
    by (simp add: power_add [symmetric])
  then show ?thesis
    unfolding is_double_def by blast
qed

lemma grid_bracket_pos:
  assumes "0 < v" and "v \<le> 2 ^ 1023"
  shows "\<exists>g1 g2. g1 \<in> grid \<and> g2 \<in> grid \<and> g1 \<le> v \<and> v \<le> g2 \<and>
           g2 - g1 \<le> v / 2 ^ 52 + 1 / 2 ^ 1074"
proof -
  define k :: int where "k = \<lfloor>log 2 v\<rfloor>"
  define e :: int where "e = max (k - 52) (- 1074)"
  define S :: real where "S = 2 powr of_int e"
  define m :: int where "m = \<lfloor>v / S\<rfloor>"
  have kv: "2 powr of_int k \<le> v" "v < 2 powr (of_int k + 1)"
    using floor_log_eq_powr_iff [of v 2 k] assms(1) by (simp_all add: k_def)
  have "2 powr of_int k \<le> (2::real) powr 1023"
    using kv(1) assms(2) by simp
  then have "(of_int k :: real) \<le> 1023"
    by (simp only: powr_le_cancel_iff) 
  then have k_le: "k \<le> 1023"
    by linarith
  have e_lo: "- 1074 \<le> e" and e_hi: "e \<le> 971" and e_k: "k - 52 \<le> e"
    using k_le by (simp_all add: e_def)
  have S_pos: "0 < S"
    by (simp add: S_def)
  have "v < 2 powr (of_int e + 53)"
  proof -
    have "(of_int k + 1 :: real) \<le> of_int e + 53"
      using e_k by linarith
    then have "(2::real) powr (of_int k + 1) \<le> 2 powr (of_int e + 53)"
      by (intro powr_mono) simp_all
    with kv(2) show ?thesis by linarith
  qed
  also have "\<dots> = S * 2 ^ 53"
    by (simp add: S_def powr_add)
  finally have v_lt: "v / S < 2 ^ 53"
    using S_pos by (simp add: field_simps)
  have m_ge: "0 \<le> m"
    using assms(1) S_pos by (simp add: m_def)
  have "m < 2 ^ 53"
  proof -
    have "v / S < of_int (2 ^ 53)"
      using v_lt by simp
    then show ?thesis
      unfolding m_def by (simp only: floor_less_iff)
  qed
  then have m_lt: "\<bar>m\<bar> < 2 ^ 53"
    using m_ge by simp
  have fl: "of_int m \<le> v / S" "v / S < of_int m + 1"
    unfolding m_def by linarith+
  have g1_le: "of_int m * S \<le> v"
    using fl(1) S_pos by (simp add: field_simps)
  have g2_ge: "v \<le> (of_int m + 1) * S"
    using fl(2) S_pos by (simp add: field_simps)
  have g1: "of_int m * S \<in> grid"
  proof -
    have "\<bar>m\<bar> < 2 ^ 53 \<and> - 1074 \<le> e \<and> e \<le> 971 \<and> of_int m * S = of_int m * 2 powr of_int e"
      using m_lt e_lo e_hi by (simp add: S_def)
    then have "is_double (of_int m * S)"
      unfolding is_double_def by blast
    then show ?thesis by (rule grid_double)
  qed
  have g2: "(of_int m + 1) * S \<in> grid"
  proof (cases "m + 1 < 2 ^ 53")
    case True
    then have "\<bar>m + 1\<bar> < 2 ^ 53 \<and> - 1074 \<le> e \<and> e \<le> 971 \<and>
        (of_int m + 1) * S = of_int (m + 1) * 2 powr of_int e"
      using m_ge e_lo e_hi by (simp add: S_def)
    then have "is_double ((of_int m + 1) * S)"
      unfolding is_double_def by blast
    then show ?thesis by (rule grid_double)
  next
    case False
    with \<open>m < 2 ^ 53\<close> have m1: "m + 1 = 2 ^ 53"
      by simp
    then have "(of_int (m + 1) :: real) = of_int (2 ^ 53)"
      by simp
    then have top: "(of_int m + 1 :: real) = 2 ^ 53"
      by simp
    show ?thesis
    proof (cases "e = 971")
      case True
      have "(of_int m + 1) * S = 2 ^ 53 * (2::real) powr 971"
        by (simp add: top S_def True)
      also have "\<dots> = 2 ^ 1024"
        by (simp add: power_add [symmetric])
      finally show ?thesis
        by (simp add: grid_def)
    next
      case False
      with e_hi have e1: "e + 1 \<le> 971"
        by simp
      have "(2::real) powr of_int (e + 1) = 2 * 2 powr of_int e"
        by (simp add: powr_add)
      then have "(of_int m + 1) * S = of_int (2 ^ 52) * 2 powr of_int (e + 1)"
        by (simp add: top S_def)
      moreover have "\<bar>2 ^ 52 :: int\<bar> < 2 ^ 53" "- 1074 \<le> e + 1"
        using e_lo by simp_all
      ultimately have "is_double ((of_int m + 1) * S)"
        unfolding is_double_def using e1 by blast
      then show ?thesis by (rule grid_double)
    qed
  qed
  have "S \<le> v / 2 ^ 52 + 1 / 2 ^ 1074"
  proof (cases "- 1074 \<le> k - 52")
    case True
    then have "e = k - 52"
      by (simp add: e_def)
    then have "S = 2 powr (of_int k - 52)"
      by (simp add: S_def)
    also have "\<dots> = 2 powr of_int k / 2 ^ 52"
      by (simp add: powr_diff)
    also have "\<dots> \<le> v / 2 ^ 52"
      using kv(1) by (simp add: divide_right_mono)
    finally show ?thesis
      by (simp add: add_increasing2)
  next
    case False
    then have "e = - 1074"
      by (simp add: e_def)
    then have "S = 2 powr (- 1074)"
      by (simp add: S_def)
    also have "\<dots> = 1 / 2 ^ 1074"
      by (simp add: powr_minus_divide)
    finally show ?thesis
      using assms(1) by simp
  qed
  moreover have "(of_int m + 1) * S - of_int m * S = S"
    by (simp add: algebra_simps)
  ultimately have "(of_int m + 1) * S - of_int m * S \<le> v / 2 ^ 52 + 1 / 2 ^ 1074"
    by simp
  with g1 g2 g1_le g2_ge show ?thesis
    by blast
qed

lemma grid_bracket:
  assumes "\<bar>v\<bar> \<le> 2 ^ 1023"
  shows "\<exists>g1 g2. g1 \<in> grid \<and> g2 \<in> grid \<and> g1 \<le> v \<and> v \<le> g2 \<and>
           g2 - g1 \<le> \<bar>v\<bar> / 2 ^ 52 + 1 / 2 ^ 1074"
proof -
  consider "v = 0" | "0 < v" | "v < 0"
    by linarith
  then show ?thesis
  proof cases
    case 1
    have "(0::real) \<in> grid"
      by (simp add: grid_double is_double_0)
    with 1 show ?thesis
      by (intro exI [of _ 0]) simp
  next
    case 2
    with assms grid_bracket_pos [of v] show ?thesis
      by simp
  next
    case 3
    with assms grid_bracket_pos [of "- v"]
    obtain g1 g2 where g: "g1 \<in> grid" "g2 \<in> grid" "g1 \<le> - v" "- v \<le> g2"
      "g2 - g1 \<le> - v / 2 ^ 52 + 1 / 2 ^ 1074"
      by auto
    have "- g2 \<in> grid \<and> - g1 \<in> grid \<and> - g2 \<le> v \<and> v \<le> - g1 \<and>
        - g1 - (- g2) \<le> \<bar>v\<bar> / 2 ^ 52 + 1 / 2 ^ 1074"
      using g 3 by (simp add: grid_minus)
    then show ?thesis
      by blast
  qed
qed

text \<open>
  The error of rounding: half a unit in the last place, relative in the normal range
  and absolute below it.
\<close>

lemma rnd_error:
  assumes "\<bar>v\<bar> \<le> 2 ^ 1023"
  shows "\<exists>e. rnd v = Fin e \<and> val e = nearest v \<and>
           \<bar>val e - v\<bar> \<le> \<bar>v\<bar> / 2 ^ 53 + 1 / 2 ^ 1075"
proof -
  have b: "\<bar>v\<bar> \<le> 2 ^ 1024"
    using assms by (rule order_trans) simp
  have top: "(2 ^ 1023 :: real) \<in> grid" "- (2 ^ 1023 :: real) \<in> grid"
    using is_double_pow2_1023 by (simp_all add: grid_double is_double_minus)
  have "- (2 ^ 1023) \<le> v" "v \<le> 2 ^ 1023"
    using assms by (simp_all add: abs_le_iff)
  then have "- (2 ^ 1023) \<le> grid_below v" "grid_above v \<le> 2 ^ 1023"
    using below_props(3) [OF b top(2)] above_props(3) [OF b top(1)] by simp_all
  then have nb: "\<bar>nearest v\<bar> \<le> 2 ^ 1023"
    using nearest_between(1,2) [OF b] by (simp add: abs_le_iff)
  have "(2 ^ 1023 :: real) < 2 ^ 1024"
    by simp
  with nb assms have small: "\<not> 2 ^ 1024 \<le> \<bar>v\<bar>" "\<bar>nearest v\<bar> \<noteq> 2 ^ 1024"
    by linarith+
  then have "is_double (nearest v)"
    using nearest_between(3) [OF b] by (intro grid_cases)
  then have v1: "val (dbl (nearest v)) = nearest v"
    by (rule val_dbl)
  from grid_bracket [OF assms] obtain g1 g2 where g: "g1 \<in> grid" "g2 \<in> grid" "g1 \<le> v"
    "v \<le> g2" "g2 - g1 \<le> \<bar>v\<bar> / 2 ^ 52 + 1 / 2 ^ 1074"
    by blast
  have "g1 \<le> grid_below v" "grid_above v \<le> g2"
    using below_props(3) [OF b g(1) g(3)] above_props(3) [OF b g(2) g(4)] by simp_all
  then have "grid_above v - grid_below v \<le> \<bar>v\<bar> / 2 ^ 52 + 1 / 2 ^ 1074"
    using g(5) by linarith
  then have "(grid_above v - grid_below v) / 2 \<le> \<bar>v\<bar> / 2 ^ 53 + 1 / 2 ^ 1075"
    by simp
  with nearest_error [OF b] have "\<bar>nearest v - v\<bar> \<le> \<bar>v\<bar> / 2 ^ 53 + 1 / 2 ^ 1075"
    by linarith
  with v1 small show ?thesis
    by (simp add: rnd_def)
qed

section \<open>Facts about the operators\<close>

lemma lit_double: "is_double v \<Longrightarrow> lit v = Fin (dbl v)"
  by (simp add: lit_def rnd_double)

lemmas double_simps =
  is_double_0 is_double_1 is_double_numeral is_double_minus val_is_double
  val_dbl dbl_val dbl_eq_iff rnd_double lit_double

lemma lit_not_special: "is_double v \<Longrightarrow> lit v \<noteq> NaN \<and> lit v \<noteq> PInf \<and> lit v \<noteq> NInf"
  by (simp add: lit_double)

lemma strict_eq_Fin: "strict_eq (Fin a) (Fin b) = (a = b)"
  by (simp add: strict_eq_def)

lemma strict_eq_special:
  "strict_eq NaN b = False" "strict_eq a NaN = False"
  "strict_eq PInf (Fin c) = False" "strict_eq NInf (Fin c) = False"
  by (simp_all add: strict_eq_def)

lemma strict_eq_zero: "strict_eq v (lit 0) \<longleftrightarrow> v = lit 0"
  by (auto simp add: strict_eq_def double_simps)


lemma jmul_zero_left: "jmul (lit 0) (Fin a) = lit 0"
  by (simp add: double_simps)


lemma jdiv_one_right: "jdiv v (lit 1) = v"
  by (cases v) (simp_all add: double_simps)

lemma jabs_lit: "is_double v \<Longrightarrow> jabs (lit v) = lit \<bar>v\<bar>"
  by (simp add: double_simps is_double_abs)




section \<open>Facts about the trajectory\<close>

lemma updateParticle_position:
  "particle_position (updateParticle H s) = position_at H (params s) (t s)"
  by (simp add: updateParticle_def Let_def)

lemma position_at_drift:
  assumes "strict_eq (omega_of p) (lit 0) \<or> strict_eq (v_perp p) (lit 0)"
  shows "position_at H p tm =
     \<lparr>x = jmul (v_perp p) tm, y = lit 0, z = jmul (v_parallel p) tm\<rparr>"
  using assms by (simp add: position_at_def Let_def)

lemma position_at_general:
  assumes "\<not> strict_eq (omega_of p) (lit 0)" and "\<not> strict_eq (v_perp p) (lit 0)"
  shows "position_at H p tm =
     \<lparr>x = jmul (jdiv (v_perp p) (omega_of p)) (jsin H (jmul (omega_of p) tm)),
      y = jmul (jneg (jdiv (v_perp p) (omega_of p)))
            (jsub (lit 1) (jcos H (jmul (omega_of p) tm))),
      z = jmul (v_parallel p) tm\<rparr>"
  using assms by (simp add: position_at_def Let_def)

section \<open>Axial motion\<close>

text \<open>
  C7. In both branches the z component of the computed position is the product
  \<open>v_parallel * t\<close> as the script computes it, for every time and every value of the
  parameters.
\<close>

theorem axial_motion_decoupled:
  "z (particle_position (updateParticle H s)) = jmul (v_parallel (params s)) (t s) \<and>
   z (position_at H p tm) = jmul (v_parallel p) tm"
  by (simp add: updateParticle_position position_at_def Let_def)

text \<open>
  C8, as the code has it. If \<open>v_perp\<close> is zero, then the computed position has
  \<open>y = 0\<close> at every time and \<open>x = 0\<close> at every finite time, whatever mass, charge and
  field strength are (a mass of zero included: the test on \<open>v_perp\<close> alone selects the
  drift branch). In general \<open>x\<close> is the product \<open>0 * t\<close>.
\<close>

theorem pure_axial_drift:
  assumes "strict_eq (v_perp (params s)) (lit 0)"
  shows "y (particle_position (updateParticle H s)) = lit 0 \<and>
     x (particle_position (updateParticle H s)) = jmul (lit 0) (t s) \<and>
     (t s = Fin tm \<longrightarrow> x (particle_position (updateParticle H s)) = lit 0)"
proof -
  have v: "v_perp (params s) = lit 0"
    using assms by (simp add: strict_eq_zero)
  have pos: "particle_position (updateParticle H s) =
      \<lparr>x = jmul (lit 0) (t s), y = lit 0, z = jmul (v_parallel (params s)) (t s)\<rparr>"
    using assms position_at_drift [of "params s" H "t s"]
    by (simp add: updateParticle_position v)
  show ?thesis
    by (auto simp add: pos jmul_zero_left)
qed

theorem pure_axial_drift_witness:
  "strict_eq (v_perp (params (initial reference_host
      \<lparr>params := (params (initial reference_host))\<lparr>mass := lit 0, v_perp := lit 0\<rparr>,
       t := lit 2\<rparr>))) (lit 0) \<and>
   t (initial reference_host
      \<lparr>params := (params (initial reference_host))\<lparr>mass := lit 0, v_perp := lit 0\<rparr>,
       t := lit 2\<rparr>) = Fin (dbl 2) \<and>
   particle_position
     (updateParticle reference_host (initial reference_host
      \<lparr>params := (params (initial reference_host))\<lparr>mass := lit 0, v_perp := lit 0\<rparr>,
       t := lit 2\<rparr>)) = \<lparr>x = lit 0, y = lit 0, z = lit 2\<rparr>"
  using pure_axial_drift
    [of "initial reference_host
      \<lparr>params := (params (initial reference_host))\<lparr>mass := lit 0, v_perp := lit 0\<rparr>,
       t := lit 2\<rparr>" reference_host "dbl 2"]
  by (simp add: initial_def updateParticle_position position_at_def strict_eq_Fin
      double_simps)

text \<open>
  C8 as stated fails at a time that is not finite. From the initial state, setting
  \<open>v_perp\<close> to 0 and the speed to \<open>NaN\<close> (what \<open>parseFloat\<close> returns for a text that
  is no number) and running one frame makes the simulation time \<open>NaN\<close>; \<open>v_perp\<close> is
  zero, and \<open>x\<close> is \<open>0 * NaN\<close>, which is \<open>NaN\<close> and equals nothing.
\<close>

theorem pure_axial_drift_counterexample:
  "strict_eq (v_perp (params (run reference_host
      [SliderInput P_v_perp (lit 0), SliderInput P_speed NaN, Frame (lit 1)]
      (initial reference_host)))) (lit 0) \<and>
   t (run reference_host
      [SliderInput P_v_perp (lit 0), SliderInput P_speed NaN, Frame (lit 1)]
      (initial reference_host)) = NaN \<and>
   x (particle_position (run reference_host
      [SliderInput P_v_perp (lit 0), SliderInput P_speed NaN, Frame (lit 1)]
      (initial reference_host))) = NaN \<and>
   \<not> strict_eq (x (particle_position (run reference_host
      [SliderInput P_v_perp (lit 0), SliderInput P_speed NaN, Frame (lit 1)]
      (initial reference_host)))) (lit 0)"
  by (simp add: run_def bindSlider_def animate_def updateParticle_def position_at_def
      omega_of_def initial_def Let_def strict_eq_def double_simps)

section \<open>Reset and the sliders\<close>

text \<open>
  C6. After \<open>reset\<close> the simulation time is 0 and the trail buffer is empty, whatever
  the state was; the reset button does exactly this.
\<close>

theorem reset_clears_time_and_trail:
  "t (reset s) = lit 0 \<and> trailPositions (reset s) = [] \<and>
   length (trailPositions (reset s)) = 0 \<and>
   handle H s ResetClick = reset s"
  by (simp add: reset_def)

text \<open>
  C10. An input event on the mass, charge, field, \<open>v_perp\<close> or \<open>v_parallel\<close> slider
  stores the value, sets the simulation time to 0 and empties the trail buffer. An
  input event on the speed slider stores the value and changes nothing else: time
  and trail buffer stay as they were.
\<close>

theorem slider_reset_policy:
  "(n \<noteq> P_speed \<longrightarrow>
      t (slider_input n v s) = lit 0 \<and> trailPositions (slider_input n v s) = [] \<and>
      params (slider_input n v s) = set_param n v (params s)) \<and>
   slider_input P_speed v s = s\<lparr>params := (params s)\<lparr>speed := v\<rparr>\<rparr> \<and>
   t (slider_input P_speed v s) = t s \<and>
   trailPositions (slider_input P_speed v s) = trailPositions s"
  by (cases n) (simp_all add: bindSlider_def Let_def)

theorem slider_reset_policy_witness:
  "P_mass \<noteq> P_speed \<and>
   t (initial reference_host\<lparr>t := lit 7,
        trailPositions := [particle_position (initial reference_host)]\<rparr>) = lit 7 \<and>
   t (slider_input P_mass (lit 2)
        (initial reference_host\<lparr>t := lit 7,
           trailPositions := [particle_position (initial reference_host)]\<rparr>)) = lit 0 \<and>
   trailPositions (slider_input P_mass (lit 2)
        (initial reference_host\<lparr>t := lit 7,
           trailPositions := [particle_position (initial reference_host)]\<rparr>)) = [] \<and>
   mass (params (slider_input P_mass (lit 2)
        (initial reference_host\<lparr>t := lit 7,
           trailPositions := [particle_position (initial reference_host)]\<rparr>))) = lit 2 \<and>
   t (slider_input P_speed (lit 2)
        (initial reference_host\<lparr>t := lit 7,
           trailPositions := [particle_position (initial reference_host)]\<rparr>)) = lit 7 \<and>
   trailPositions (slider_input P_speed (lit 2)
        (initial reference_host\<lparr>t := lit 7,
           trailPositions := [particle_position (initial reference_host)]\<rparr>)) =
     [particle_position (initial reference_host)]"
  using slider_reset_policy
    [of P_mass "lit 2" "initial reference_host\<lparr>t := lit 7,
           trailPositions := [particle_position (initial reference_host)]\<rparr>"]
  by simp

section \<open>The clock\<close>

lemma animate_time: "t (animate H delta s) = jadd (t s) (jmul (speed (params s)) delta)"
  by (simp add: animate_def updateParticle_def Let_def)

lemma jadd_nonneg_ge:
  assumes "rnd v = PInf \<or> (\<exists>e. rnd v = Fin e \<and> 0 \<le> val e)"
  shows "jle (Fin a) (jadd (Fin a) (rnd v))"
proof -
  from assms consider "rnd v = PInf" | e where "rnd v = Fin e" "0 \<le> val e"
    by blast
  then show ?thesis
  proof cases
    case 1
    then show ?thesis by simp
  next
    case 2
    have "val a \<le> val a + val e"
      using 2(2) by simp
    with rnd_lower [OF val_is_double [of a], of "val a + val e"]
    have "rnd (val a + val e) = PInf \<or> (\<exists>e'. rnd (val a + val e) = Fin e' \<and> val a \<le> val e')"
      by simp
    then show ?thesis
      using 2(1) by auto
  qed
qed

text \<open>
  C9, as the code has it. Each frame sets the simulation time to \<open>t + speed * delta\<close>,
  product and sum computed and rounded as JavaScript does. For a finite time, a finite
  speed that is not negative and a finite delta that is not negative, the new time is
  not below the old one.
\<close>

theorem time_advance:
  "t (animate H delta s) = jadd (t s) (jmul (speed (params s)) delta) \<and>
   (t s = Fin a \<and> speed (params s) = Fin k \<and> delta = Fin d \<and> 0 \<le> val k \<and> 0 \<le> val d \<longrightarrow>
      jle (t s) (t (animate H delta s)))"
proof (intro conjI impI)
  show "t (animate H delta s) = jadd (t s) (jmul (speed (params s)) delta)"
    by (rule animate_time)
next
  assume h: "t s = Fin a \<and> speed (params s) = Fin k \<and> delta = Fin d \<and> 0 \<le> val k \<and> 0 \<le> val d"
  then have "0 \<le> val k * val d"
    by simp
  with rnd_lower [OF is_double_0, of "val k * val d"]
  have "rnd (val k * val d) = PInf \<or> (\<exists>e. rnd (val k * val d) = Fin e \<and> 0 \<le> val e)"
    by simp
  then have "jle (Fin a) (jadd (Fin a) (rnd (val k * val d)))"
    by (rule jadd_nonneg_ge)
  then show "jle (t s) (t (animate H delta s))"
    using h by (simp add: animate_time)
qed

theorem time_advance_witness:
  "t (initial reference_host\<lparr>t := lit 3,
        params := (params (initial reference_host))\<lparr>speed := lit 2\<rparr>\<rparr>) = Fin (dbl 3) \<and>
   speed (params (initial reference_host\<lparr>t := lit 3,
        params := (params (initial reference_host))\<lparr>speed := lit 2\<rparr>\<rparr>)) = Fin (dbl 2) \<and>
   lit (1 / 2) = Fin (dbl (1 / 2)) \<and>
   0 \<le> val (dbl 2) \<and> 0 \<le> val (dbl (1 / 2)) \<and>
   t (animate reference_host (lit (1 / 2))
        (initial reference_host\<lparr>t := lit 3,
           params := (params (initial reference_host))\<lparr>speed := lit 2\<rparr>\<rparr>)) = lit 4 \<and>
   jle (t (initial reference_host\<lparr>t := lit 3,
           params := (params (initial reference_host))\<lparr>speed := lit 2\<rparr>\<rparr>))
       (t (animate reference_host (lit (1 / 2))
            (initial reference_host\<lparr>t := lit 3,
               params := (params (initial reference_host))\<lparr>speed := lit 2\<rparr>\<rparr>)))"
proof -
  have half: "is_double (1 / 2)"
  proof -
    have "(2::real) powr (- 1) = 1 / 2"
      by (simp add: powr_minus_divide)
    then have "\<bar>1 :: int\<bar> < 2 ^ 53 \<and> - 1074 \<le> (- 1 :: int) \<and> (- 1 :: int) \<le> 971 \<and>
        (1 / 2 :: real) = of_int 1 * 2 powr of_int (- 1)"
      by simp
    then show ?thesis
      unfolding is_double_def by blast
  qed
  show ?thesis
    using time_advance
      [of reference_host "lit (1 / 2)" "initial reference_host\<lparr>t := lit 3,
             params := (params (initial reference_host))\<lparr>speed := lit 2\<rparr>\<rparr>"
          "dbl 3" "dbl 2" "dbl (1 / 2)"] half
    by (simp add: animate_time double_simps)
qed

text \<open>
  C9 as stated fails for a negative speed: from the initial state with speed -1, a
  frame with delta 1 takes the time from 0 to -1.
\<close>

theorem time_advance_counterexample:
  "t (initial reference_host\<lparr>params := (params (initial reference_host))\<lparr>speed := lit (- 1)\<rparr>\<rparr>) =
     lit 0 \<and>
   t (animate reference_host (lit 1)
       (initial reference_host\<lparr>params := (params (initial reference_host))\<lparr>speed := lit (- 1)\<rparr>\<rparr>)) =
     lit (- 1) \<and>
   \<not> jle (t (initial reference_host\<lparr>params :=
             (params (initial reference_host))\<lparr>speed := lit (- 1)\<rparr>\<rparr>))
        (t (animate reference_host (lit 1)
             (initial reference_host\<lparr>params :=
                (params (initial reference_host))\<lparr>speed := lit (- 1)\<rparr>\<rparr>)))"
  by (simp add: animate_time) (simp add: initial_def double_simps)

section \<open>The degenerate case\<close>

lemma omega_of_zero:
  assumes "mass p = Fin m" and "val m \<noteq> 0" and "charge p = Fin c" and "B p = Fin b"
    and "val c = 0 \<or> val b = 0"
  shows "omega_of p = lit 0"
proof -
  have p0: "val c * val b = 0"
    using assms(5) by auto
  have "jmul (charge p) (B p) = rnd (val c * val b)"
    using assms(3,4) by simp
  also have "\<dots> = rnd 0"
    by (simp only: p0)
  also have "\<dots> = Fin (dbl 0)"
    by (simp add: double_simps)
  finally have "jdiv (jmul (charge p) (B p)) (mass p) = Fin (dbl 0)"
    using assms(1,2) by (simp add: double_simps)
  then show ?thesis
    by (simp add: omega_of_def double_simps)
qed

text \<open>
  C2, as the code has it. If \<open>omega === 0\<close> or \<open>v_perp === 0\<close>, then for every time
  the position is \<open>(v_perp * t, 0, v_parallel * t)\<close>, the products as the script
  computes them. A charge or a field strength of zero makes \<open>omega\<close> zero when the mass
  is a finite number other than zero and charge and field strength are finite.
\<close>

theorem degenerate_drift:
  "(strict_eq (omega_of (params s)) (lit 0) \<or> strict_eq (v_perp (params s)) (lit 0) \<longrightarrow>
      particle_position (updateParticle H s) =
        \<lparr>x = jmul (v_perp (params s)) (t s), y = lit 0,
         z = jmul (v_parallel (params s)) (t s)\<rparr>) \<and>
   (mass (params s) = Fin m \<and> val m \<noteq> 0 \<and> charge (params s) = Fin c \<and>
    B (params s) = Fin b \<and> (val c = 0 \<or> val b = 0) \<longrightarrow>
      strict_eq (omega_of (params s)) (lit 0) \<and>
      particle_position (updateParticle H s) =
        \<lparr>x = jmul (v_perp (params s)) (t s), y = lit 0,
         z = jmul (v_parallel (params s)) (t s)\<rparr>)"
proof (intro conjI impI)
  assume "strict_eq (omega_of (params s)) (lit 0) \<or> strict_eq (v_perp (params s)) (lit 0)"
  then show "particle_position (updateParticle H s) =
        \<lparr>x = jmul (v_perp (params s)) (t s), y = lit 0,
         z = jmul (v_parallel (params s)) (t s)\<rparr>"
    by (simp add: updateParticle_position position_at_drift)
next
  assume fin: "mass (params s) = Fin m \<and> val m \<noteq> 0 \<and> charge (params s) = Fin c \<and>
    B (params s) = Fin b \<and> (val c = 0 \<or> val b = 0)"
  then have "omega_of (params s) = lit 0"
    by (intro omega_of_zero [of "params s" m c b]) simp_all
  then show om: "strict_eq (omega_of (params s)) (lit 0)"
    by (simp add: strict_eq_zero)
  then show "particle_position (updateParticle H s) =
        \<lparr>x = jmul (v_perp (params s)) (t s), y = lit 0,
         z = jmul (v_parallel (params s)) (t s)\<rparr>"
    by (simp add: updateParticle_position position_at_drift)
qed

theorem degenerate_drift_witness:
  "strict_eq (omega_of (params (initial reference_host\<lparr>params :=
        (params (initial reference_host))\<lparr>charge := lit 0, v_perp := lit 3,
           v_parallel := lit 5\<rparr>, t := lit 2\<rparr>))) (lit 0) \<and>
   mass (params (initial reference_host\<lparr>params :=
        (params (initial reference_host))\<lparr>charge := lit 0, v_perp := lit 3,
           v_parallel := lit 5\<rparr>, t := lit 2\<rparr>)) = Fin (dbl 1) \<and>
   val (dbl 1) \<noteq> 0 \<and>
   charge (params (initial reference_host\<lparr>params :=
        (params (initial reference_host))\<lparr>charge := lit 0, v_perp := lit 3,
           v_parallel := lit 5\<rparr>, t := lit 2\<rparr>)) = Fin (dbl 0) \<and>
   B (params (initial reference_host\<lparr>params :=
        (params (initial reference_host))\<lparr>charge := lit 0, v_perp := lit 3,
           v_parallel := lit 5\<rparr>, t := lit 2\<rparr>)) = Fin (dbl 1) \<and>
   val (dbl 0) = 0 \<and>
   particle_position
     (updateParticle reference_host (initial reference_host\<lparr>params :=
        (params (initial reference_host))\<lparr>charge := lit 0, v_perp := lit 3,
           v_parallel := lit 5\<rparr>, t := lit 2\<rparr>)) =
     \<lparr>x = lit 6, y = lit 0, z = lit 10\<rparr>"
  using degenerate_drift
    [of "initial reference_host\<lparr>params :=
        (params (initial reference_host))\<lparr>charge := lit 0, v_perp := lit 3,
           v_parallel := lit 5\<rparr>, t := lit 2\<rparr>" reference_host "dbl 1" "dbl 0" "dbl 1"]
  by (simp add: initial_def omega_of_def strict_eq_Fin double_simps)

text \<open>
  C2 as stated fails where the mass is zero: with mass 0, charge 0, field 1,
  \<open>v_perp\<close> 1, \<open>v_parallel\<close> 1 and time 1 the charge is zero, yet \<open>omega\<close> is \<open>NaN\<close>
  and the position is \<open>(NaN, NaN, 1)\<close>, not the drift position \<open>(1, 0, 1)\<close>.
\<close>

theorem degenerate_drift_counterexample:
  "charge (params (initial reference_host\<lparr>params :=
        (params (initial reference_host))\<lparr>mass := lit 0, charge := lit 0\<rparr>,
        t := lit 1\<rparr>)) = lit 0 \<and>
   omega_of (params (initial reference_host\<lparr>params :=
        (params (initial reference_host))\<lparr>mass := lit 0, charge := lit 0\<rparr>,
        t := lit 1\<rparr>)) = NaN \<and>
   particle_position
     (updateParticle reference_host (initial reference_host\<lparr>params :=
        (params (initial reference_host))\<lparr>mass := lit 0, charge := lit 0\<rparr>,
        t := lit 1\<rparr>)) = \<lparr>x = NaN, y = NaN, z = lit 1\<rparr> \<and>
   particle_position
     (updateParticle reference_host (initial reference_host\<lparr>params :=
        (params (initial reference_host))\<lparr>mass := lit 0, charge := lit 0\<rparr>,
        t := lit 1\<rparr>)) \<noteq> \<lparr>x = lit 1, y = lit 0, z = lit 1\<rparr>"
  by (simp add: initial_def updateParticle_position position_at_def omega_of_def jsub_def
      strict_eq_def double_simps)

section \<open>The general case\<close>



section \<open>Bounds on \<open>\<pi>\<close> and on the sine of \<open>Math.PI\<close>\<close>









section \<open>The trail buffer\<close>

lemma trail_push_length:
  "length tr \<le> maxTrailPoints \<Longrightarrow> length (trail_push p tr) \<le> maxTrailPoints"
  by (simp add: trail_push_def Let_def)

lemma foldl_trail_push:
  "length tr \<le> maxTrailPoints \<Longrightarrow>
   foldl (\<lambda>tr p. trail_push p tr) tr ps = drop (length (tr @ ps) - maxTrailPoints) (tr @ ps)"
proof (induction ps arbitrary: tr)
  case Nil
  then show ?case by simp
next
  case (Cons p ps)
  have len: "length (trail_push p tr) \<le> maxTrailPoints"
    using Cons.prems by (rule trail_push_length)
  have "foldl (\<lambda>tr p. trail_push p tr) tr (p # ps) =
        drop (length (trail_push p tr @ ps) - maxTrailPoints) (trail_push p tr @ ps)"
    using Cons.IH [OF len] by simp
  also have "\<dots> = drop (length (tr @ p # ps) - maxTrailPoints) (tr @ p # ps)"
  proof (cases "length tr < maxTrailPoints")
    case True
    then show ?thesis by (simp add: trail_push_def Let_def)
  next
    case False
    with Cons.prems have full: "length tr = maxTrailPoints" by simp
    then have "tr \<noteq> []" by (auto simp add: maxTrailPoints_def)
    then obtain a tr' where tr: "tr = a # tr'" by (cases tr) auto
    have t1: "trail_push p tr @ ps = tr' @ p # ps"
      using full by (simp add: trail_push_def Let_def tr)
    have t2: "tr @ p # ps = a # (tr' @ p # ps)"
      by (simp add: tr)
    have n1: "length (tr' @ p # ps) - maxTrailPoints = length ps"
      using full by (simp add: tr)
    have n2: "length (a # (tr' @ p # ps)) - maxTrailPoints = Suc (length ps)"
      using full by (simp add: tr)
    show ?thesis
      unfolding t1 t2 n1 n2 by (simp only: drop_Suc_Cons)
  qed
  finally show ?case .
qed

lemma animate_trail:
  "trailPositions (animate H delta s) =
     trail_push (particle_position (animate H delta s)) (trailPositions s)"
  by (simp add: animate_def updateParticle_def Let_def)

lemma handle_trail_length:
  assumes "length (trailPositions s) \<le> maxTrailPoints"
  shows "length (trailPositions (handle H s e)) \<le> maxTrailPoints"
proof (cases e)
  case (Frame delta)
  then show ?thesis
    using assms by (simp add: animate_trail trail_push_length)
next
  case (SliderInput n v)
  then show ?thesis
    using assms by (cases n) (simp_all add: bindSlider_def Let_def)
next
  case (FollowChange c)
  then show ?thesis
    using assms by (simp add: follow_change_def)
next
  case ResetClick
  then show ?thesis by (simp add: reset_def)
qed

lemma run_trail_length:
  "length (trailPositions s) \<le> maxTrailPoints \<Longrightarrow>
   length (trailPositions (run H evs s)) \<le> maxTrailPoints"
  unfolding run_def
proof (induction evs arbitrary: s)
  case Nil
  then show ?case by simp
next
  case (Cons e evs)
  then show ?case by (simp add: handle_trail_length)
qed

text \<open>
  C3. Whatever events the page has handled, the trail buffer holds at most 1000
  points. Every frame pushes the new particle position at the end and then, if the
  array is longer than 1000, removes its first element. Pushing a list of points onto
  the empty buffer leaves the last 1000 of them, in the order they were pushed; after
  1500 points the buffer is the list without its first 500 points, of length 1000.
\<close>

theorem trail_buffer_bounded:
  "length (trailPositions (run H evs (initial H))) \<le> 1000 \<and>
   trailPositions (animate H delta s) =
     trail_push (particle_position (animate H delta s)) (trailPositions s) \<and>
   trail_push p tr = (if length (tr @ [p]) > 1000 then tl (tr @ [p]) else tr @ [p]) \<and>
   foldl (\<lambda>tr p. trail_push p tr) [] ps = drop (length ps - 1000) ps \<and>
   length (foldl (\<lambda>tr p. trail_push p tr) [] ps) = min (length ps) 1000 \<and>
   (length ps = 1500 \<longrightarrow>
      length (foldl (\<lambda>tr p. trail_push p tr) [] ps) = 1000 \<and>
      foldl (\<lambda>tr p. trail_push p tr) [] ps = drop 500 ps)"
proof -
  have inv: "length (trailPositions (run H evs (initial H))) \<le> 1000"
    using run_trail_length [of "initial H" H evs] by (simp add: initial_def maxTrailPoints_def)
  have push: "trail_push p tr = (if length (tr @ [p]) > 1000 then tl (tr @ [p]) else tr @ [p])"
    by (simp add: trail_push_def Let_def maxTrailPoints_def)
  have fold: "foldl (\<lambda>tr p. trail_push p tr) [] ps = drop (length ps - 1000) ps"
    using foldl_trail_push [of "[]" ps] by (simp add: maxTrailPoints_def)
  have len: "length (foldl (\<lambda>tr p. trail_push p tr) [] ps) = min (length ps) 1000"
    unfolding fold by simp
  show ?thesis
    using inv push len animate_trail [of H delta s] by (simp add: fold)
qed

theorem trail_buffer_bounded_witness:
  "length (map (\<lambda>i. \<lparr>x = lit (real i), y = lit 0, z = lit 0\<rparr>) [0..<1500]) = 1500 \<and>
   length (foldl (\<lambda>tr p. trail_push p tr) []
      (map (\<lambda>i. \<lparr>x = lit (real i), y = lit 0, z = lit 0\<rparr>) [0..<1500])) = 1000 \<and>
   foldl (\<lambda>tr p. trail_push p tr) []
      (map (\<lambda>i. \<lparr>x = lit (real i), y = lit 0, z = lit 0\<rparr>) [0..<1500]) =
     map (\<lambda>i. \<lparr>x = lit (real i), y = lit 0, z = lit 0\<rparr>) [500..<1500]"
proof -
  define ps where "ps = map (\<lambda>i. \<lparr>x = lit (real i), y = lit 0, z = lit 0\<rparr>) [0..<1500]"
  have n: "length ps = 1500"
    unfolding ps_def by (simp only: length_map length_upt)
  have d: "drop 500 ps = map (\<lambda>i. \<lparr>x = lit (real i), y = lit 0, z = lit 0\<rparr>) [500..<1500]"
    unfolding ps_def by (simp del: upt_rec_numeral add: drop_map)
  from trail_buffer_bounded
    [of reference_host "[]" "lit 0" "initial reference_host"
        "\<lparr>x = lit 0, y = lit 0, z = lit 0\<rparr>" "[]" ps] n
  have r1: "length (foldl (\<lambda>tr p. trail_push p tr) [] ps) = 1000"
    and r2: "foldl (\<lambda>tr p. trail_push p tr) [] ps = drop 500 ps"
    by blast+
  have "length ps = 1500 \<and>
    length (foldl (\<lambda>tr p. trail_push p tr) [] ps) = 1000 \<and>
    foldl (\<lambda>tr p. trail_push p tr) [] ps =
      map (\<lambda>i. \<lparr>x = lit (real i), y = lit 0, z = lit 0\<rparr>) [500..<1500]"
    by (intro conjI) (rule n, rule r1, rule trans [OF r2 d])
  then show ?thesis
    unfolding ps_def .
qed

section \<open>The circle of gyration\<close>

lemma circle_error:
  fixes r th sv cv px pu py :: real
  assumes S: "\<bar>sv - sin th\<bar> \<le> 1 / 2 ^ 52"
    and C: "\<bar>cv - cos th\<bar> \<le> 1 / 2 ^ 52"
    and X: "\<bar>px - r * sv\<bar> \<le> \<bar>r * sv\<bar> / 2 ^ 53 + 1 / 2 ^ 1075"
    and U: "\<bar>pu - (1 - cv)\<bar> \<le> \<bar>1 - cv\<bar> / 2 ^ 53 + 1 / 2 ^ 1075"
    and Y: "\<bar>py - (- r) * pu\<bar> \<le> \<bar>(- r) * pu\<bar> / 2 ^ 53 + 1 / 2 ^ 1075"
  shows "\<bar>sqrt (px\<^sup>2 + (py + r)\<^sup>2) - \<bar>r\<bar>\<bar> \<le> \<bar>r\<bar> / 2 ^ 49 + 1 / 2 ^ 1073"
proof -
  define a :: real where "a = 1 / 2 ^ 1075"
  define A where "A = px - r * sin th"
  define Bq where "Bq = (py + r) - r * cos th"
  have a_pos: "0 \<le> a" and a_small: "a \<le> 1 / 2 ^ 53"
    by (simp_all add: a_def)
  have sv2: "\<bar>sv\<bar> \<le> 2"
  proof -
    have "\<bar>sv\<bar> \<le> \<bar>sv - sin th\<bar> + \<bar>sin th\<bar>"
      by linarith
    also have "\<dots> \<le> 1 / 2 ^ 52 + 1"
      using S abs_sin_le_one [of th] by linarith
    also have "\<dots> \<le> 2"
      by simp
    finally show ?thesis .
  qed
  have cv3: "\<bar>1 - cv\<bar> \<le> 3"
  proof -
    have "\<bar>1 - cv\<bar> \<le> 1 + \<bar>cv - cos th\<bar> + \<bar>cos th\<bar>"
      by linarith
    also have "\<dots> \<le> 1 + 1 / 2 ^ 52 + 1"
      using C abs_cos_le_one [of th] by linarith
    also have "\<dots> \<le> 3"
      by simp
    finally show ?thesis .
  qed
  have rsv: "\<bar>r * sv\<bar> \<le> 2 * \<bar>r\<bar>"
  proof -
    have "\<bar>r * sv\<bar> = \<bar>r\<bar> * \<bar>sv\<bar>"
      by (simp add: abs_mult)
    also have "\<dots> \<le> \<bar>r\<bar> * 2"
      using sv2 by (intro mult_left_mono) simp_all
    finally show ?thesis by simp
  qed
  have A_bound: "\<bar>A\<bar> \<le> \<bar>r\<bar> * (4 / 2 ^ 53) + a"
  proof -
    have "A = (px - r * sv) + r * (sv - sin th)"
      by (simp add: A_def algebra_simps)
    then have "\<bar>A\<bar> \<le> \<bar>px - r * sv\<bar> + \<bar>r\<bar> * \<bar>sv - sin th\<bar>"
      by (simp add: abs_mult [symmetric]) 
    also have "\<dots> \<le> (\<bar>r * sv\<bar> / 2 ^ 53 + a) + \<bar>r\<bar> * (1 / 2 ^ 52)"
      using X S by (intro add_mono mult_left_mono) (simp_all add: a_def)
    also have "\<dots> \<le> (2 * \<bar>r\<bar> / 2 ^ 53 + a) + \<bar>r\<bar> * (1 / 2 ^ 52)"
      using rsv by (intro add_mono divide_right_mono) simp_all
    also have "\<dots> = \<bar>r\<bar> * (4 / 2 ^ 53) + a"
      by simp
    finally show ?thesis .
  qed
  have U': "\<bar>pu - (1 - cv)\<bar> \<le> 3 / 2 ^ 53 + a"
  proof -
    have "\<bar>1 - cv\<bar> / 2 ^ 53 \<le> 3 / 2 ^ 53"
      using cv3 by (intro divide_right_mono) simp_all
    with U show ?thesis
      by (simp add: a_def)
  qed
  have pu4: "\<bar>pu\<bar> \<le> 4"
  proof -
    have "\<bar>pu\<bar> \<le> \<bar>pu - (1 - cv)\<bar> + \<bar>1 - cv\<bar>"
      by linarith
    also have "\<dots> \<le> (3 / 2 ^ 53 + a) + 3"
      using U' cv3 by linarith
    also have "\<dots> \<le> 4"
      using a_small by simp
    finally show ?thesis .
  qed
  have rpu: "\<bar>(- r) * pu\<bar> \<le> 4 * \<bar>r\<bar>"
  proof -
    have "\<bar>(- r) * pu\<bar> = \<bar>r\<bar> * \<bar>pu\<bar>"
      by (simp add: abs_mult)
    also have "\<dots> \<le> \<bar>r\<bar> * 4"
      using pu4 by (intro mult_left_mono) simp_all
    finally show ?thesis by simp
  qed
  have B_bound: "\<bar>Bq\<bar> \<le> \<bar>r\<bar> * (10 / 2 ^ 53) + a"
  proof -
    have "Bq = (py - (- r) * pu) + r * ((1 - cv) - pu) + r * (cv - cos th)"
      by (simp add: Bq_def algebra_simps)
    then have "\<bar>Bq\<bar> \<le> \<bar>py - (- r) * pu\<bar> + \<bar>r * ((1 - cv) - pu)\<bar> + \<bar>r * (cv - cos th)\<bar>"
      by linarith
    also have "\<dots> = \<bar>py - (- r) * pu\<bar> + \<bar>r\<bar> * \<bar>pu - (1 - cv)\<bar> + \<bar>r\<bar> * \<bar>cv - cos th\<bar>"
      by (simp add: abs_mult abs_minus_commute)
    also have "\<dots> \<le> (\<bar>(- r) * pu\<bar> / 2 ^ 53 + a) + \<bar>r\<bar> * (3 / 2 ^ 53 + a) + \<bar>r\<bar> * (1 / 2 ^ 52)"
      using Y U' C by (intro add_mono mult_left_mono) (simp_all add: a_def)
    also have "\<dots> \<le> (4 * \<bar>r\<bar> / 2 ^ 53 + a) + \<bar>r\<bar> * (3 / 2 ^ 53 + 1 / 2 ^ 53) + \<bar>r\<bar> * (1 / 2 ^ 52)"
      using rpu a_small by (intro add_mono divide_right_mono mult_left_mono) simp_all
    also have "\<dots> = \<bar>r\<bar> * (10 / 2 ^ 53) + a"
      by simp
    finally show ?thesis .
  qed
  have total: "\<bar>A\<bar> + \<bar>Bq\<bar> \<le> \<bar>r\<bar> / 2 ^ 49 + 1 / 2 ^ 1073"
  proof -
    have "\<bar>A\<bar> + \<bar>Bq\<bar> \<le> \<bar>r\<bar> * (14 / 2 ^ 53) + 2 * a"
      using A_bound B_bound by (simp add: algebra_simps)
    also have "\<dots> \<le> \<bar>r\<bar> * (16 / 2 ^ 53) + 2 * a"
      by (intro add_mono mult_left_mono) simp_all
    also have "\<dots> \<le> \<bar>r\<bar> / 2 ^ 49 + 1 / 2 ^ 1073"
      by (simp add: a_def)
    finally show ?thesis .
  qed
  have q: "sqrt (A\<^sup>2 + Bq\<^sup>2) \<le> \<bar>A\<bar> + \<bar>Bq\<bar>"
    by (rule sqrt_sum_squares_le_sum_abs)
  have p: "sqrt ((r * sin th)\<^sup>2 + (r * cos th)\<^sup>2) = \<bar>r\<bar>"
  proof -
    have "(r * sin th)\<^sup>2 + (r * cos th)\<^sup>2 = r\<^sup>2 * ((sin th)\<^sup>2 + (cos th)\<^sup>2)"
      by (simp only: power_mult_distrib distrib_left)
    then show ?thesis by simp
  qed
  have up: "sqrt (px\<^sup>2 + (py + r)\<^sup>2) \<le> \<bar>r\<bar> + sqrt (A\<^sup>2 + Bq\<^sup>2)"
  proof -
    have "sqrt ((r * sin th + A)\<^sup>2 + (r * cos th + Bq)\<^sup>2) \<le>
        sqrt ((r * sin th)\<^sup>2 + (r * cos th)\<^sup>2) + sqrt (A\<^sup>2 + Bq\<^sup>2)"
      by (rule real_sqrt_sum_squares_triangle_ineq)
    then show ?thesis
      by (simp add: p A_def Bq_def)
  qed
  have low: "\<bar>r\<bar> \<le> sqrt (px\<^sup>2 + (py + r)\<^sup>2) + sqrt (A\<^sup>2 + Bq\<^sup>2)"
  proof -
    have "sqrt ((px + (- A))\<^sup>2 + ((py + r) + (- Bq))\<^sup>2) \<le>
        sqrt (px\<^sup>2 + (py + r)\<^sup>2) + sqrt ((- A)\<^sup>2 + (- Bq)\<^sup>2)"
      by (rule real_sqrt_sum_squares_triangle_ineq)
    moreover have "px + (- A) = r * sin th" "(py + r) + (- Bq) = r * cos th"
      by (simp_all add: A_def Bq_def)
    ultimately show ?thesis
      by (simp add: p)
  qed
  show ?thesis
    using up low q total by linarith
qed

lemma abs_mult_bound:
  fixes a b :: real
  assumes "\<bar>a\<bar> \<le> 2 ^ 1021" and "\<bar>b\<bar> \<le> 4"
  shows "\<bar>a * b\<bar> \<le> 2 ^ 1023"
proof -
  have "\<bar>a * b\<bar> = \<bar>a\<bar> * \<bar>b\<bar>"
    by (simp add: abs_mult)
  also have "\<dots> \<le> 2 ^ 1021 * 4"
    using assms by (intro mult_mono) simp_all
  also have "\<dots> = (2::real) ^ 1023"
    by simp
  finally show ?thesis .
qed

lemma near_sin_bound:
  fixes sv th :: real
  assumes "\<bar>sv - sin th\<bar> \<le> 1 / 2 ^ 52"
  shows "\<bar>sv\<bar> \<le> 4"
proof -
  have "\<bar>sv\<bar> \<le> \<bar>sv - sin th\<bar> + \<bar>sin th\<bar>"
    by linarith
  also have "\<dots> \<le> 1 / 2 ^ 52 + 1"
    using assms abs_sin_le_one [of th] by linarith
  also have "\<dots> \<le> 4"
    by simp
  finally show ?thesis .
qed

lemma near_cos_bound:
  fixes cv th :: real
  assumes "\<bar>cv - cos th\<bar> \<le> 1 / 2 ^ 52"
  shows "\<bar>1 - cv\<bar> \<le> 3"
proof -
  have "\<bar>1 - cv\<bar> \<le> 1 + \<bar>cv - cos th\<bar> + \<bar>cos th\<bar>"
    by linarith
  also have "\<dots> \<le> 1 + 1 / 2 ^ 52 + 1"
    using assms abs_cos_le_one [of th] by linarith
  also have "\<dots> \<le> 3"
    by simp
  finally show ?thesis .
qed

lemma rounded_difference_bound:
  fixes pu w :: real
  assumes "\<bar>w\<bar> \<le> 3" and "\<bar>pu - w\<bar> \<le> \<bar>w\<bar> / 2 ^ 53 + 1 / 2 ^ 1075"
  shows "\<bar>pu\<bar> \<le> 4"
proof -
  have "\<bar>w\<bar> / 2 ^ 53 \<le> 3 / 2 ^ 53"
    using assms(1) by (intro divide_right_mono) simp_all
  then have "\<bar>pu - w\<bar> \<le> 3 / 2 ^ 53 + 1 / 2 ^ 1075"
    using assms(2) by linarith
  moreover have "\<bar>pu\<bar> \<le> \<bar>pu - w\<bar> + \<bar>w\<bar>"
    by linarith
  moreover have "(3 / 2 ^ 53 + 1 / 2 ^ 1075 :: real) \<le> 1"
    by simp
  ultimately show ?thesis
    using assms(1) by linarith
qed

text \<open>
  The \<open>Math\<close> functions of the reference host are accurate to half a unit in the last
  place of 1.
\<close>

lemma rnd_unit_accurate:
  assumes "\<bar>v\<bar> \<le> 1"
  shows "\<exists>e. rnd v = Fin e \<and> \<bar>val e - v\<bar> \<le> 1 / 2 ^ 52"
proof -
  have "\<bar>v\<bar> \<le> 2 ^ 1023"
    using assms by (rule order_trans) simp
  from rnd_error [OF this] obtain e where e: "rnd v = Fin e"
    "\<bar>val e - v\<bar> \<le> \<bar>v\<bar> / 2 ^ 53 + 1 / 2 ^ 1075"
    by blast
  have "\<bar>v\<bar> / 2 ^ 53 \<le> 1 / 2 ^ 53"
    using assms by (intro divide_right_mono) simp_all
  moreover have "(1 / 2 ^ 53 + 1 / 2 ^ 1075 :: real) \<le> 1 / 2 ^ 52"
    by simp
  ultimately have "\<bar>val e - v\<bar> \<le> 1 / 2 ^ 52"
    using e(2) by linarith
  with e(1) show ?thesis
    by blast
qed

text \<open>
  C4, as the code has it. In the general case, when the computed \<open>r = v_perp / omega\<close>
  is finite with \<open>|r| \<le> 2\<^sup>1\<^sup>0\<^sup>2\<^sup>1\<close>, the computed \<open>omega * t\<close> is finite, and \<open>Math.sin\<close>
  and \<open>Math.cos\<close> at \<open>omega * t\<close> are within \<open>2\<^sup>-\<^sup>5\<^sup>2\<close> of the sine and the cosine,
  the computed \<open>x\<close> and \<open>y\<close> are finite and the distance of \<open>(x, y)\<close> from \<open>(0, -r)\<close>
  differs from \<open>|r|\<close> by at most \<open>|r| * 2\<^sup>-\<^sup>4\<^sup>9 + 2\<^sup>-\<^sup>1\<^sup>0\<^sup>7\<^sup>3\<close>: the particle is on the
  circle of radius \<open>|r|\<close> around \<open>(0, -r)\<close> up to rounding.
\<close>

theorem gyroradius_circle:
  assumes "\<not> strict_eq (omega_of (params s)) (lit 0)"
    and "\<not> strict_eq (v_perp (params s)) (lit 0)"
    and "jdiv (v_perp (params s)) (omega_of (params s)) = Fin r"
    and "\<bar>val r\<bar> \<le> 2 ^ 1021"
    and "jmul (omega_of (params s)) (t s) = Fin th"
    and "jsin H (Fin th) = Fin sv" and "\<bar>val sv - sin (val th)\<bar> \<le> 1 / 2 ^ 52"
    and "jcos H (Fin th) = Fin cv" and "\<bar>val cv - cos (val th)\<bar> \<le> 1 / 2 ^ 52"
  shows "\<exists>px py. x (particle_position (updateParticle H s)) = Fin px \<and>
      y (particle_position (updateParticle H s)) = Fin py \<and>
      \<bar>gyro_distance px py r - \<bar>val r\<bar>\<bar> \<le> \<bar>val r\<bar> / 2 ^ 49 + 1 / 2 ^ 1073"
proof -
  have pos: "particle_position (updateParticle H s) =
      \<lparr>x = jmul (Fin r) (Fin sv), y = jmul (jneg (Fin r)) (jsub (lit 1) (Fin cv)),
       z = jmul (v_parallel (params s)) (t s)\<rparr>"
    unfolding updateParticle_position position_at_general [OF assms(1) assms(2)]
      assms(3) assms(5) assms(6) assms(8)
    by (rule refl)
  have "\<bar>val r * val sv\<bar> \<le> 2 ^ 1023"
    using assms(4) near_sin_bound [OF assms(7)] by (rule abs_mult_bound)
  from rnd_error [OF this] obtain px where px: "rnd (val r * val sv) = Fin px"
    "\<bar>val px - val r * val sv\<bar> \<le> \<bar>val r * val sv\<bar> / 2 ^ 53 + 1 / 2 ^ 1075"
    by blast
  have c3: "\<bar>1 - val cv\<bar> \<le> 3"
    using assms(9) by (rule near_cos_bound)
  then have "\<bar>1 - val cv\<bar> \<le> 2 ^ 1023"
    by (rule order_trans) simp
  from rnd_error [OF this] obtain pu where pu: "rnd (1 - val cv) = Fin pu"
    "\<bar>val pu - (1 - val cv)\<bar> \<le> \<bar>1 - val cv\<bar> / 2 ^ 53 + 1 / 2 ^ 1075"
    by blast
  have u: "jsub (lit 1) (Fin cv) = Fin pu"
    using pu(1) by (simp add: jsub_def double_simps)
  have pu4: "\<bar>val pu\<bar> \<le> 4"
    using c3 pu(2) by (rule rounded_difference_bound)
  have "\<bar>val r\<bar> \<le> 2 ^ 1021 \<and> \<bar>- val r\<bar> \<le> 2 ^ 1021"
    using assms(4) by simp
  then have "\<bar>(- val r) * val pu\<bar> \<le> 2 ^ 1023"
    using pu4 by (intro abs_mult_bound) simp_all
  from rnd_error [OF this] obtain py where py: "rnd ((- val r) * val pu) = Fin py"
    "\<bar>val py - (- val r) * val pu\<bar> \<le> \<bar>(- val r) * val pu\<bar> / 2 ^ 53 + 1 / 2 ^ 1075"
    by blast
  have xx: "x (particle_position (updateParticle H s)) = Fin px"
    using px(1) by (simp add: pos)
  have "jmul (jneg (Fin r)) (jsub (lit 1) (Fin cv)) = jmul (jneg (Fin r)) (Fin pu)"
    by (simp only: u)
  also have "\<dots> = rnd ((- val r) * val pu)"
    by (simp add: double_simps)
  finally have yy: "y (particle_position (updateParticle H s)) = Fin py"
    using py(1) by (simp add: pos)
  have "\<bar>sqrt ((val px)\<^sup>2 + (val py + val r)\<^sup>2) - \<bar>val r\<bar>\<bar> \<le> \<bar>val r\<bar> / 2 ^ 49 + 1 / 2 ^ 1073"
    using assms(7,9) px(2) pu(2) py(2) by (rule circle_error)
  then have "\<bar>gyro_distance px py r - \<bar>val r\<bar>\<bar> \<le> \<bar>val r\<bar> / 2 ^ 49 + 1 / 2 ^ 1073"
    by (simp add: gyro_distance_def)
  with xx yy show ?thesis
    by blast
qed

theorem gyroradius_circle_witness:
  "\<exists>sv cv px py.
     \<not> strict_eq (omega_of (params (initial reference_host\<lparr>params :=
         (params (initial reference_host))\<lparr>v_perp := lit (- 2)\<rparr>, t := lit 1\<rparr>))) (lit 0) \<and>
     \<not> strict_eq (v_perp (params (initial reference_host\<lparr>params :=
         (params (initial reference_host))\<lparr>v_perp := lit (- 2)\<rparr>, t := lit 1\<rparr>))) (lit 0) \<and>
     jdiv (v_perp (params (initial reference_host\<lparr>params :=
         (params (initial reference_host))\<lparr>v_perp := lit (- 2)\<rparr>, t := lit 1\<rparr>)))
       (omega_of (params (initial reference_host\<lparr>params :=
         (params (initial reference_host))\<lparr>v_perp := lit (- 2)\<rparr>, t := lit 1\<rparr>))) =
       Fin (dbl (- 2)) \<and>
     \<bar>val (dbl (- 2))\<bar> \<le> 2 ^ 1021 \<and>
     jmul (omega_of (params (initial reference_host\<lparr>params :=
         (params (initial reference_host))\<lparr>v_perp := lit (- 2)\<rparr>, t := lit 1\<rparr>)))
       (t (initial reference_host\<lparr>params :=
         (params (initial reference_host))\<lparr>v_perp := lit (- 2)\<rparr>, t := lit 1\<rparr>)) =
       Fin (dbl 1) \<and>
     jsin reference_host (Fin (dbl 1)) = Fin sv \<and>
     \<bar>val sv - sin (val (dbl 1))\<bar> \<le> 1 / 2 ^ 52 \<and>
     jcos reference_host (Fin (dbl 1)) = Fin cv \<and>
     \<bar>val cv - cos (val (dbl 1))\<bar> \<le> 1 / 2 ^ 52 \<and>
     x (particle_position (updateParticle reference_host (initial reference_host\<lparr>params :=
         (params (initial reference_host))\<lparr>v_perp := lit (- 2)\<rparr>, t := lit 1\<rparr>))) = Fin px \<and>
     y (particle_position (updateParticle reference_host (initial reference_host\<lparr>params :=
         (params (initial reference_host))\<lparr>v_perp := lit (- 2)\<rparr>, t := lit 1\<rparr>))) = Fin py \<and>
     \<bar>gyro_distance px py (dbl (- 2)) - 2\<bar> \<le> 2 / 2 ^ 49 + 1 / 2 ^ 1073"
proof -
  define s0 where "s0 = initial reference_host\<lparr>params :=
         (params (initial reference_host))\<lparr>v_perp := lit (- 2)\<rparr>, t := lit 1\<rparr>"
  have p: "params s0 =
     \<lparr>mass = lit 1, charge = lit 1, B = lit 1, v_perp = lit (- 2), v_parallel = lit 1,
      speed = lit 1, followCamera = False\<rparr>" and tm: "t s0 = lit 1"
    by (simp_all add: s0_def initial_def)
  have om: "omega_of (params s0) = lit 1"
    by (simp add: p omega_of_def double_simps)
  have h1: "\<not> strict_eq (omega_of (params s0)) (lit 0)"
    by (simp add: om strict_eq_Fin double_simps)
  have h2: "\<not> strict_eq (v_perp (params s0)) (lit 0)"
    by (simp add: p strict_eq_Fin double_simps)
  have h3: "jdiv (v_perp (params s0)) (omega_of (params s0)) = Fin (dbl (- 2))"
    unfolding om by (simp add: p double_simps)
  have v2: "val (dbl (- 2)) = - 2"
    by (simp add: double_simps)
  have h4: "\<bar>val (dbl (- 2))\<bar> \<le> 2 ^ 1021"
    by (simp add: v2)
  have h5: "jmul (omega_of (params s0)) (t s0) = Fin (dbl 1)"
    unfolding om tm by (simp add: double_simps)
  have v1: "val (dbl 1) = 1"
    by (simp add: double_simps)
  obtain sv where sv: "rnd (sin 1) = Fin sv" "\<bar>val sv - sin 1\<bar> \<le> 1 / 2 ^ 52"
    using rnd_unit_accurate [of "sin 1"] by auto
  obtain cv where cv: "rnd (cos 1) = Fin cv" "\<bar>val cv - cos 1\<bar> \<le> 1 / 2 ^ 52"
    using rnd_unit_accurate [of "cos 1"] by auto
  have h6: "jsin reference_host (Fin (dbl 1)) = Fin sv"
    using sv(1) by (simp add: v1 reference_host_def)
  have h7: "\<bar>val sv - sin (val (dbl 1))\<bar> \<le> 1 / 2 ^ 52"
    using sv(2) by (simp add: v1)
  have h8: "jcos reference_host (Fin (dbl 1)) = Fin cv"
    using cv(1) by (simp add: v1 reference_host_def)
  have h9: "\<bar>val cv - cos (val (dbl 1))\<bar> \<le> 1 / 2 ^ 52"
    using cv(2) by (simp add: v1)
  from gyroradius_circle [OF h1 h2 h3 h4 h5 h6 h7 h8 h9]
  obtain px py where r: "x (particle_position (updateParticle reference_host s0)) = Fin px"
    "y (particle_position (updateParticle reference_host s0)) = Fin py"
    "\<bar>gyro_distance px py (dbl (- 2)) - \<bar>val (dbl (- 2))\<bar>\<bar> \<le>
       \<bar>val (dbl (- 2))\<bar> / 2 ^ 49 + 1 / 2 ^ 1073"
    by blast
  have r3: "\<bar>gyro_distance px py (dbl (- 2)) - 2\<bar> \<le> 2 / 2 ^ 49 + 1 / 2 ^ 1073"
    using r(3) by (simp add: v2)
  have "\<not> strict_eq (omega_of (params s0)) (lit 0) \<and>
     \<not> strict_eq (v_perp (params s0)) (lit 0) \<and>
     jdiv (v_perp (params s0)) (omega_of (params s0)) = Fin (dbl (- 2)) \<and>
     \<bar>val (dbl (- 2))\<bar> \<le> 2 ^ 1021 \<and>
     jmul (omega_of (params s0)) (t s0) = Fin (dbl 1) \<and>
     jsin reference_host (Fin (dbl 1)) = Fin sv \<and>
     \<bar>val sv - sin (val (dbl 1))\<bar> \<le> 1 / 2 ^ 52 \<and>
     jcos reference_host (Fin (dbl 1)) = Fin cv \<and>
     \<bar>val cv - cos (val (dbl 1))\<bar> \<le> 1 / 2 ^ 52 \<and>
     x (particle_position (updateParticle reference_host s0)) = Fin px \<and>
     y (particle_position (updateParticle reference_host s0)) = Fin py \<and>
     \<bar>gyro_distance px py (dbl (- 2)) - 2\<bar> \<le> 2 / 2 ^ 49 + 1 / 2 ^ 1073"
    by (intro conjI) (rule h1, rule h2, rule h3, rule h4, rule h5, rule h6, rule h7,
      rule h8, rule h9, rule r(1), rule r(2), rule r3)
  then show ?thesis
    unfolding s0_def by blast
qed

text \<open>
  C4 as stated fails for a negative \<open>v_perp\<close> and for mass zero. With \<open>v_perp = -1\<close>,
  the other parameters 1 and time 0, the general branch puts the particle at the
  origin, \<open>r\<close> is -1 and the distance from \<open>(0, -r)\<close> is 1, not \<open>r\<close>. With mass 0, the
  other parameters 1 and time 1, the general branch is taken, \<open>omega\<close> and
  \<open>omega * t\<close> are infinite, \<open>r\<close> is 0 and the coordinates are \<open>NaN\<close>.
\<close>

theorem gyroradius_circle_counterexample:
  "\<not> strict_eq (omega_of (params (initial reference_host\<lparr>params :=
       (params (initial reference_host))\<lparr>v_perp := lit (- 1)\<rparr>\<rparr>))) (lit 0) \<and>
   \<not> strict_eq (v_perp (params (initial reference_host\<lparr>params :=
       (params (initial reference_host))\<lparr>v_perp := lit (- 1)\<rparr>\<rparr>))) (lit 0) \<and>
   particle_position
     (updateParticle reference_host (initial reference_host\<lparr>params :=
       (params (initial reference_host))\<lparr>v_perp := lit (- 1)\<rparr>\<rparr>)) =
     \<lparr>x = Fin (dbl 0), y = Fin (dbl 0), z = Fin (dbl 0)\<rparr> \<and>
   jdiv (v_perp (params (initial reference_host\<lparr>params :=
       (params (initial reference_host))\<lparr>v_perp := lit (- 1)\<rparr>\<rparr>)))
     (omega_of (params (initial reference_host\<lparr>params :=
       (params (initial reference_host))\<lparr>v_perp := lit (- 1)\<rparr>\<rparr>))) = Fin (dbl (- 1)) \<and>
   val (dbl (- 1)) = - 1 \<and>
   gyro_distance (dbl 0) (dbl 0) (dbl (- 1)) = 1 \<and>
   gyro_distance (dbl 0) (dbl 0) (dbl (- 1)) \<noteq> val (dbl (- 1)) \<and>
   \<not> strict_eq (omega_of (params (initial reference_host\<lparr>params :=
       (params (initial reference_host))\<lparr>mass := lit 0\<rparr>, t := lit 1\<rparr>))) (lit 0) \<and>
   \<not> strict_eq (v_perp (params (initial reference_host\<lparr>params :=
       (params (initial reference_host))\<lparr>mass := lit 0\<rparr>, t := lit 1\<rparr>))) (lit 0) \<and>
   jmul (omega_of (params (initial reference_host\<lparr>params :=
       (params (initial reference_host))\<lparr>mass := lit 0\<rparr>, t := lit 1\<rparr>))) (lit 1) = PInf \<and>
   particle_position
     (updateParticle reference_host (initial reference_host\<lparr>params :=
       (params (initial reference_host))\<lparr>mass := lit 0\<rparr>, t := lit 1\<rparr>)) =
     \<lparr>x = NaN, y = NaN, z = lit 1\<rparr>"
  by (simp add: initial_def updateParticle_position position_at_def omega_of_def jsub_def
      gyro_distance_def strict_eq_def double_simps)

section \<open>Follow mode\<close>






end
